theory Spec2Isabelle
  imports Main
begin

section \<open>Strings, runes and the library functions the code calls\<close>

text \<open>
  A Go string is a sequence of bytes; it is modelled as a \<open>string\<close>, each \<open>char\<close> one
  byte. A rune is a Go \<open>int32\<close>, modelled as an \<open>int\<close>; the lexer's \<open>eof\<close> is \<open>-1\<close>.
\<close>

type_synonym rune = int

definition eof :: rune where
  "eof = - 1"

definition RuneError :: rune where
  "RuneError = 0xFFFD"

definition byte :: "char \<Rightarrow> nat" where
  "byte c = of_char c"

text \<open>
  \<open>utf8.DecodeRuneInString\<close> of the Go library: the first rune of the string and its width
  in bytes; \<open>(RuneError, 0)\<close> for the empty string and \<open>(RuneError, 1)\<close> for an encoding
  that is not valid UTF-8. The library's table of first bytes gives the width of the
  encoding (\<open>first_size\<close>) and the range accepted for the second byte (\<open>accept_lo\<close>,
  \<open>accept_hi\<close>); they are written as the comparisons the table stands for.
\<close>

definition first_size :: "nat \<Rightarrow> nat" where
  "first_size s0 = (if s0 < 0xE0 then 2 else if s0 < 0xF0 then 3 else 4)"

definition accept_lo :: "nat \<Rightarrow> nat" where
  "accept_lo s0 = (if s0 = 0xE0 then 0xA0 else if s0 = 0xF0 then 0x90 else 0x80)"

definition accept_hi :: "nat \<Rightarrow> nat" where
  "accept_hi s0 = (if s0 = 0xED then 0x9F else if s0 = 0xF4 then 0x8F else 0xBF)"

fun DecodeRuneInString :: "string \<Rightarrow> rune \<times> nat" where
  "DecodeRuneInString [] = (RuneError, 0)"
| "DecodeRuneInString (c0 # cs) =
     (let s0 = byte c0 in
      if s0 < 0x80 then (int s0, 1)
      else if s0 < 0xC2 \<or> 0xF4 < s0 then (RuneError, 1)
      else if length (c0 # cs) < first_size s0 then (RuneError, 1)
      else
        let s1 = byte (cs ! 0) in
        if s1 < accept_lo s0 \<or> accept_hi s0 < s1 then (RuneError, 1)
        else if first_size s0 \<le> 2 then (int ((s0 mod 32) * 64 + s1 mod 64), 2)
        else
          let s2 = byte (cs ! 1) in
          if s2 < 0x80 \<or> 0xBF < s2 then (RuneError, 1)
          else if first_size s0 \<le> 3 then
            (int ((s0 mod 16) * 4096 + (s1 mod 64) * 64 + s2 mod 64), 3)
          else
            let s3 = byte (cs ! 2) in
            if s3 < 0x80 \<or> 0xBF < s3 then (RuneError, 1)
            else
              (int ((s0 mod 8) * 262144 + (s1 mod 64) * 4096 + (s2 mod 64) * 64
                    + s3 mod 64), 4))"

text \<open>
  The conversion \<open>string(r)\<close> of a rune to its UTF-8 encoding. Go converts a rune outside
  the range of valid Unicode scalar values (negative, a surrogate, above \<open>0x10FFFF\<close>) to
  the encoding of \<open>RuneError\<close>.
\<close>

definition string_of_rune :: "rune \<Rightarrow> string" where
  "string_of_rune r =
     (let n = nat r in
      if r < 0 \<or> 0x10FFFF < r \<or> (0xD800 \<le> r \<and> r \<le> 0xDFFF) then
        [char_of (0xEF::nat), char_of (0xBF::nat), char_of (0xBD::nat)]
      else if n < 0x80 then [char_of n]
      else if n < 0x800 then [char_of (0xC0 + n div 64), char_of (0x80 + n mod 64)]
      else if n < 0x10000 then
        [char_of (0xE0 + n div 4096), char_of (0x80 + (n div 64) mod 64),
         char_of (0x80 + n mod 64)]
      else
        [char_of (0xF0 + n div 262144), char_of (0x80 + (n div 4096) mod 64),
         char_of (0x80 + (n div 64) mod 64), char_of (0x80 + n mod 64)])"

text \<open>
  \<open>unicode.ToUpper\<close> of the Go library. Its ASCII path is written out; above ASCII the
  library consults the Unicode case tables, which are data outside this repository and
  are taken as the parameter \<open>tbl\<close>.
\<close>

definition ToUpper :: "(rune \<Rightarrow> rune) \<Rightarrow> rune \<Rightarrow> rune" where
  "ToUpper tbl r =
     (if r \<le> 0x7F then (if 97 \<le> r \<and> r \<le> 122 then r - 32 else r) else tbl r)"

text \<open>
  \<open>strings.ContainsRune\<close>, for the sets the lexer passes (\<open>lowercase\<close>, \<open>digits\<close>,
  \<open>spaces\<close>), which hold ASCII bytes only: a rune is in the set when it is the value of
  one of its bytes.
\<close>

definition ContainsRune :: "string \<Rightarrow> rune \<Rightarrow> bool" where
  "ContainsRune valid r = (\<exists>c \<in> set valid. r = int (byte c))"

definition HasPrefix :: "string \<Rightarrow> string \<Rightarrow> bool" where
  "HasPrefix s p = (take (length p) s = p)"

text \<open>
  \<open>strconv.Itoa\<close> and \<open>strconv.Atoi\<close> for a 64-bit \<open>int\<close>. \<open>Atoi\<close> accepts an optional
  sign followed by one or more decimal digits and fails (\<open>None\<close>) on any other text and on
  a value outside the range of \<open>int\<close>.
\<close>

definition digit_char :: "nat \<Rightarrow> char" where
  "digit_char d = char_of (48 + d)"

fun nat_digits :: "nat \<Rightarrow> string" where
  "nat_digits n = (if n < 10 then [digit_char n] else nat_digits (n div 10) @ [digit_char (n mod 10)])"

declare nat_digits.simps [simp del]

definition Itoa :: "int \<Rightarrow> string" where
  "Itoa i = (if i < 0 then CHR ''-'' # nat_digits (nat (- i)) else nat_digits (nat i))"

definition is_digit :: "char \<Rightarrow> bool" where
  "is_digit c = (48 \<le> byte c \<and> byte c \<le> 57)"

definition digits_value :: "string \<Rightarrow> nat" where
  "digits_value ds = foldl (\<lambda>n c. 10 * n + (byte c - 48)) 0 ds"

definition Atoi :: "string \<Rightarrow> int option" where
  "Atoi s =
     (let neg = (s \<noteq> [] \<and> hd s = CHR ''-'');
          ds = (if s \<noteq> [] \<and> (hd s = CHR ''-'' \<or> hd s = CHR ''+'') then tl s else s)
      in
      if ds = [] \<or> \<not> list_all is_digit ds then None
      else
        let v = (if neg then - int (digits_value ds) else int (digits_value ds)) in
        if v < - (2 ^ 63) \<or> 2 ^ 63 - 1 < v then None else Some v)"

section \<open>The operation tree (parser.go)\<close>

datatype OpPluralCaseType = OpPluralCaseTypeRange | OpPluralCaseTypeExact | OpPluralCaseOther

text \<open>
  The Go slices of operations and of transformers are \<open>[]any\<close>; the values stored in them
  are the structs below, so each slice is a list over a closed datatype.
\<close>

datatype Op =
    LiteralOp (Value: string)
  | ReplacementOp (Key: string) (Transformers: "Transformer list")
  | PluralCountOp
and Transformer =
    CapitalizeTransformer
  | ReplaceTransformer
  | PluralTransformer (Cases: "PluralCase list") (Other: "Op list")
and PluralCase =
    PluralCase (Type: OpPluralCaseType) (A: int) (B: int) (Ops: "Op list")

datatype Message = Message (MsgOps: "Op list")

fun Match :: "PluralCase \<Rightarrow> int \<Rightarrow> bool" where
  "Match c count =
     (case Type c of
        OpPluralCaseTypeRange \<Rightarrow> count \<ge> A c \<and> count \<le> B c
      | OpPluralCaseTypeExact \<Rightarrow> count = A c
      | OpPluralCaseOther \<Rightarrow> False)"

subsection \<open>Message.Raw\<close>

text \<open>The loop that writes the body of a plural case: literals verbatim, the count as \<open>#\<close>.\<close>

fun Raw_body_op :: "Op \<Rightarrow> string" where
  "Raw_body_op (LiteralOp v) = v"
| "Raw_body_op PluralCountOp = ''#''"
| "Raw_body_op (ReplacementOp k ts) = []"

definition Raw_body :: "Op list \<Rightarrow> string" where
  "Raw_body ops = concat (map Raw_body_op ops)"

definition Raw_case :: "PluralCase \<Rightarrow> string" where
  "Raw_case c =
     ''='' @
     (if Type c = OpPluralCaseTypeRange then Itoa (A c) @ ''-'' @ Itoa (B c) else Itoa (A c)) @
     '' '' @ ''{'' @ Raw_body (Ops c) @ ''}''"

fun Raw_transformer :: "Transformer \<Rightarrow> string" where
  "Raw_transformer CapitalizeTransformer = ''|'' @ ''capitalize''"
| "Raw_transformer ReplaceTransformer = ''|'' @ ''replace''"
| "Raw_transformer (PluralTransformer cases other) =
     ''|'' @ ''plural'' @ ''('' @ concat (map Raw_case cases) @
     (if length other > 0 then '' other {'' @ Raw_body other @ ''}'' else []) @ '')''"

fun Raw_op :: "Op \<Rightarrow> string" where
  "Raw_op (LiteralOp v) = v"
| "Raw_op (ReplacementOp k ts) = '':'' @ k @ concat (map Raw_transformer ts)"
| "Raw_op PluralCountOp = []"

definition Raw :: "Message \<Rightarrow> string" where
  "Raw m = concat (map Raw_op (MsgOps m))"

section \<open>The renderer (container.go, Container.format)\<close>

text \<open>
  The loop over the cases of a plural transformer: the body of the first case that matches,
  and the nil slice when the loop ends without a match.
\<close>

fun first_match :: "PluralCase list \<Rightarrow> int \<Rightarrow> Op list" where
  "first_match [] count = []"
| "first_match (c # cs) count = (if Match c count then Ops c else first_match cs count)"

fun format_plural_op :: "int \<Rightarrow> Op \<Rightarrow> string" where
  "format_plural_op count (LiteralOp v) = v"
| "format_plural_op count PluralCountOp = Itoa count"
| "format_plural_op count (ReplacementOp k ts) = []"

definition plural_count :: "string \<Rightarrow> int" where
  "plural_count v = (case Atoi v of None \<Rightarrow> 0 | Some n \<Rightarrow> n)"

definition plural_ops :: "PluralCase list \<Rightarrow> Op list \<Rightarrow> int \<Rightarrow> Op list" where
  "plural_ops cases other count =
     (let ops = first_match cases count in if length ops = 0 then other else ops)"

text \<open>One transformer applied to the current value: the body of the inner loop.\<close>

fun format_transformer ::
  "(rune \<Rightarrow> rune) \<Rightarrow> (string \<rightharpoonup> Message) \<Rightarrow> string \<Rightarrow> Transformer \<Rightarrow> string" where
  "format_transformer tbl messages v CapitalizeTransformer =
     (let (r, size) = DecodeRuneInString v in string_of_rune (ToUpper tbl r) @ drop size v)"
| "format_transformer tbl messages v ReplaceTransformer =
     (case messages v of Some rep \<Rightarrow> Raw rep | None \<Rightarrow> v)"
| "format_transformer tbl messages v (PluralTransformer cases other) =
     (let count = plural_count v;
          ops = plural_ops cases other count
      in concat (map (format_plural_op count) ops))"

text \<open>One operation of the message: what the outer loop appends to the builder.\<close>

fun format_op ::
  "(rune \<Rightarrow> rune) \<Rightarrow> (string \<rightharpoonup> string) \<Rightarrow> (string \<rightharpoonup> Message) \<Rightarrow> Op \<Rightarrow> string" where
  "format_op tbl replacements messages (LiteralOp v) = v"
| "format_op tbl replacements messages (ReplacementOp k ts) =
     (case replacements k of
        None \<Rightarrow> '':'' @ k
      | Some v \<Rightarrow> foldl (format_transformer tbl messages) v ts)"
| "format_op tbl replacements messages PluralCountOp = []"

text \<open>
  \<open>Container.format\<close>. The first loop of the source only sizes the builder and has no
  effect on the result.
\<close>

definition format ::
  "(rune \<Rightarrow> rune) \<Rightarrow> Message \<Rightarrow> (string \<rightharpoonup> string) \<Rightarrow> (string \<rightharpoonup> Message) \<Rightarrow> string" where
  "format tbl msg replacements messages =
     concat (map (format_op tbl replacements messages) (MsgOps msg))"


section \<open>Evaluating characters\<close>

lemmas char_eval = char_of_def bit_Suc_0_iff

section \<open>Properties of the renderer\<close>

text \<open>
  C7. When the plural transformer is applied to a value that \<open>strconv.Atoi\<close> rejects,
  the count is 0: the case is selected for the count 0 and \<open>#\<close> is written as the
  decimal form of 0. The transformer is a total function, so a string is produced for
  every value.
\<close>

theorem plural_non_integer_count_zero:
  assumes "Atoi v = None"
  shows "format_transformer tbl messages v (PluralTransformer cases other) =
           concat (map (format_plural_op 0) (plural_ops cases other 0))"
  using assms by (simp add: plural_count_def)

theorem plural_non_integer_count_zero_witness:
  "format_transformer (\<lambda>r. r) Map.empty ''many''
     (PluralTransformer [PluralCase OpPluralCaseTypeExact 1 0 [LiteralOp ''one item'']]
        [PluralCountOp, LiteralOp '' items'']) = ''0 items''"
  using plural_non_integer_count_zero [of "''many''" "\<lambda>r. r" Map.empty
      "[PluralCase OpPluralCaseTypeExact 1 0 [LiteralOp ''one item'']]"
      "[PluralCountOp, LiteralOp '' items'']"]
  by (simp add: Atoi_def is_digit_def byte_def plural_ops_def Itoa_def nat_digits.simps
      digit_char_def char_eval)

text \<open>
  C10. Capitalize applied to the empty value gives the three bytes of the UTF-8 encoding
  of U+FFFD, not the empty string: decoding the empty string yields the error rune with
  width 0. The case table of the library has no entry for U+FFFD, which is the hypothesis
  on \<open>tbl\<close>.
\<close>

theorem capitalize_empty:
  assumes "tbl RuneError = RuneError"
  shows "format_transformer tbl messages [] CapitalizeTransformer = [CHR 0xEF, CHR 0xBF, CHR 0xBD]"
  using assms by (simp add: ToUpper_def RuneError_def string_of_rune_def char_eval)

theorem capitalize_empty_witness:
  "format_transformer (\<lambda>r. r) Map.empty [] CapitalizeTransformer = [CHR 0xEF, CHR 0xBF, CHR 0xBD] \<and>
   format_transformer (\<lambda>r. r) Map.empty [] CapitalizeTransformer \<noteq> []"
  using capitalize_empty [of "\<lambda>r. r" Map.empty] by simp

end
